theory Spec2Isabelle
  imports Main "HOL-Library.AList"
begin

section \<open>The document store and the cleanup sweep (server entry point)\<close>

text \<open>
  Times are JavaScript epoch milliseconds (\<open>Date.now()\<close>), modelled as \<open>int\<close>.
  The constants are the ones of the server entry point.
\<close>

definition ONE_DAY_MS :: int where
  "ONE_DAY_MS = 24 * 60 * 60 * 1000"

definition THIRTY_DAYS_MS :: int where
  "THIRTY_DAYS_MS = 30 * ONE_DAY_MS"

definition STARTUP_DELAY_MS :: int where
  "STARTUP_DELAY_MS = 10000"

text \<open>
  Modelled from the spec: the customer and quote models (\<open>models/customer.js\<close>,
  \<open>models/quote.js\<close>) are imported by the entry point and the index script, but the
  schemas themselves are not among the sources. Following the specification's data model,
  a customer document has a status and a creation timestamp (the two paths the sweep's
  filter reads), a quote document has a customer reference, a status and an updated-at
  timestamp; both get an identifier.
\<close>

record customer =
  cust_id :: nat
  status :: string
  createdAt :: int

record quote_doc =
  quote_id :: nat
  quote_customer :: nat
  quote_status :: string
  quote_updatedAt :: int

datatype store_error = StoreUnavailable string

text \<open>
  The store holds the collections. \<open>fault\<close> is the environment: the error the store
  raises on the next operation, \<open>None\<close> when it answers.
\<close>

record store =
  customers :: "customer list"
  quotes :: "quote_doc list"
  fault :: "store_error option"

text \<open>The filter document \<open>{ status: s, createdAt: { $lt: d } }\<close>.\<close>

record customer_filter =
  f_status :: string
  f_createdAt_lt :: int

definition matches :: "customer_filter \<Rightarrow> customer \<Rightarrow> bool" where
  "matches f c \<longleftrightarrow> status c = f_status f \<and> createdAt c < f_createdAt_lt f"

text \<open>
  \<open>Customer.deleteMany(filter)\<close>: one bulk delete on the customer collection. It
  rejects with the store's error when the store does not answer, and otherwise removes
  every matching document and reports how many were removed (\<open>deletedCount\<close>).
\<close>

definition deleteMany :: "customer_filter \<Rightarrow> store \<Rightarrow> store_error + (store \<times> nat)" where
  "deleteMany f db =
     (case fault db of
        Some e \<Rightarrow> Inl e
      | None \<Rightarrow>
          Inr (db\<lparr>customers := filter (\<lambda>c. \<not> matches f c) (customers db)\<rparr>,
               length (filter (matches f) (customers db))))"

text \<open>
  What one invocation does besides changing the store: the store operations it issued and
  the console lines it wrote, in order.
\<close>

datatype effect =
    StoreDeleteMany customer_filter
  | ConsoleLogCleanedUp nat
  | ConsoleErrorCleanupFailed store_error

text \<open>How a call of an (async) function ends: it returns (resolves) or throws (rejects).\<close>

datatype ('e, 'a) outcome = Thrown 'e | Returned 'a

text \<open>
  \<open>cleanupOldQuotations\<close>, called at time \<open>now\<close>. The whole body is inside
  \<open>try\<close>; the \<open>catch\<close> branch writes the error to the console and falls through to
  the end of the function. The success message is written only when \<open>deletedCount\<close> is
  truthy, that is, not zero.
\<close>

definition cleanupOldQuotations :: "int \<Rightarrow> store \<Rightarrow> (store_error, unit) outcome \<times> store \<times> effect list" where
  "cleanupOldQuotations now db =
     (let cutoff = now - THIRTY_DAYS_MS;
          f = \<lparr>f_status = ''quotation'', f_createdAt_lt = cutoff\<rparr>
      in case deleteMany f db of
           Inr (db', deletedCount) \<Rightarrow>
             (Returned (), db',
              StoreDeleteMany f #
                (if deletedCount \<noteq> 0 then [ConsoleLogCleanedUp deletedCount] else []))
         | Inl e \<Rightarrow>
             (Returned (), db, [StoreDeleteMany f, ConsoleErrorCleanupFailed e]))"

text \<open>The claim's wording: a customer is eligible at time \<open>now\<close>.\<close>

definition eligible :: "int \<Rightarrow> customer \<Rightarrow> bool" where
  "eligible now c \<longleftrightarrow> status c = ''quotation'' \<and> createdAt c < now - 30 * (24 * 60 * 60 * 1000)"

definition sweep_outcome :: "int \<Rightarrow> store \<Rightarrow> (store_error, unit) outcome" where
  "sweep_outcome now db = fst (cleanupOldQuotations now db)"

definition sweep_store :: "int \<Rightarrow> store \<Rightarrow> store" where
  "sweep_store now db = fst (snd (cleanupOldQuotations now db))"

definition sweep_effects :: "int \<Rightarrow> store \<Rightarrow> effect list" where
  "sweep_effects now db = snd (snd (cleanupOldQuotations now db))"


section \<open>The sweep scheduler (\<open>initializeApp\<close>)\<close>

text \<open>
  The two functions handed to the timers: the arrow function given to \<open>setTimeout\<close>,
  and \<open>cleanupOldQuotations\<close> itself, given to \<open>setInterval\<close>.
\<close>

datatype callback = StartCleanupJob | CleanupJob

record timer =
  due :: int
  every :: "int option"
  callback :: callback

text \<open>
  The server process as far as the timers see it: the clock in milliseconds, the armed
  timers, the store, the times at which \<open>cleanupOldQuotations\<close> was invoked, and the
  effects of those invocations.
\<close>

record process =
  clock :: int
  timers :: "timer list"
  database :: store
  fired :: "int list"
  trace :: "effect list"

text \<open>The runtime replaces a delay below 1 or above \<open>2^31 - 1\<close> by 1.\<close>

definition timer_delay :: "int \<Rightarrow> int" where
  "timer_delay d = (if d < 1 \<or> 2147483647 < d then 1 else d)"

definition setTimeout :: "callback \<Rightarrow> int \<Rightarrow> process \<Rightarrow> process" where
  "setTimeout cb delay p =
     p\<lparr>timers := timers p @ [\<lparr>due = clock p + timer_delay delay, every = None, callback = cb\<rparr>]\<rparr>"

definition setInterval :: "callback \<Rightarrow> int \<Rightarrow> process \<Rightarrow> process" where
  "setInterval cb period p =
     p\<lparr>timers := timers p @
        [\<lparr>due = clock p + timer_delay period, every = Some (timer_delay period), callback = cb\<rparr>]\<rparr>"

text \<open>An invocation of the sweep by a timer: \<open>Date.now()\<close> is the clock.\<close>

definition invoke_cleanup :: "process \<Rightarrow> process" where
  "invoke_cleanup p =
     (case cleanupOldQuotations (clock p) (database p) of
        (_, db', effs) \<Rightarrow> p\<lparr>database := db', fired := fired p @ [clock p], trace := trace p @ effs\<rparr>)"

fun run_callback :: "callback \<Rightarrow> process \<Rightarrow> process" where
  "run_callback StartCleanupJob p = setInterval CleanupJob ONE_DAY_MS (invoke_cleanup p)"
| "run_callback CleanupJob p = invoke_cleanup p"

text \<open>
  One step of time: the clock advances by one millisecond, every timer that is due runs,
  a one-shot timer is dropped and an interval timer is armed again one period later.
\<close>

definition rearm :: "int \<Rightarrow> timer \<Rightarrow> timer list" where
  "rearm now t = (case every t of None \<Rightarrow> [] | Some d \<Rightarrow> [t\<lparr>due := now + d\<rparr>])"

definition tick :: "process \<Rightarrow> process" where
  "tick p =
     (let now = clock p + 1;
          due_now = filter (\<lambda>t. due t \<le> now) (timers p);
          waiting = filter (\<lambda>t. \<not> due t \<le> now) (timers p)
      in fold (\<lambda>t. run_callback (callback t)) due_now
           (p\<lparr>clock := now, timers := waiting @ concat (map (rearm now) due_now)\<rparr>))"

definition run_for :: "nat \<Rightarrow> process \<Rightarrow> process" where
  "run_for n p = (tick ^^ n) p"

text \<open>
  \<open>initializeApp\<close>, entered when \<open>connectDB\<close> has settled with the given result, in a
  process whose clock shows that moment. A failed connection ends the process with exit
  code 1; otherwise the start of the cleanup job is put on a one-shot timer.
\<close>

definition initializeApp :: "store_error + unit \<Rightarrow> process \<Rightarrow> int + process" where
  "initializeApp connectDB p =
     (case connectDB of
        Inl e \<Rightarrow> Inl 1
      | Inr _ \<Rightarrow> Inr (setTimeout StartCleanupJob STARTUP_DELAY_MS p))"

text \<open>A freshly started process at time \<open>t0\<close>: no timer armed, no sweep invoked yet.\<close>

definition fresh_process :: "int \<Rightarrow> store \<Rightarrow> process" where
  "fresh_process t0 d = \<lparr>clock = t0, timers = [], database = d, fired = [], trace = []\<rparr>"

text \<open>
  The claim's wording: within the first \<open>n\<close> milliseconds after the connection the
  sweep is due once when the startup delay has passed and once more for every full day
  after that; \<open>fire_times\<close> are those moments, and \<open>armed\<close> is the one timer the
  process is expected to hold.
\<close>

definition sweeps_within :: "nat \<Rightarrow> nat" where
  "sweeps_within n = (if n < 10000 then 0 else (n - 10000) div 86400000 + 1)"

definition fire_times :: "int \<Rightarrow> nat \<Rightarrow> int list" where
  "fire_times t0 n = map (\<lambda>k. t0 + STARTUP_DELAY_MS + int k * ONE_DAY_MS) [0..<sweeps_within n]"

definition armed :: "int \<Rightarrow> nat \<Rightarrow> timer" where
  "armed t0 n =
     (if n < 10000 then \<lparr>due = t0 + STARTUP_DELAY_MS, every = None, callback = StartCleanupJob\<rparr>
      else \<lparr>due = t0 + STARTUP_DELAY_MS + int (sweeps_within n) * ONE_DAY_MS,
             every = Some ONE_DAY_MS, callback = CleanupJob\<rparr>)"

section \<open>The quote status lifecycle\<close>

datatype lifecycle_error = InvalidTransition

text \<open>
  Modelled from the spec: the status lifecycle engine (\<open>transitionQuote\<close>) is not among
  the sources at hand; the definition follows the specification's component design and
  error handling sections. Re-applying the current status returns the record as it is; a
  target that is not a recognized status is refused; the only moves are from pending to
  approved or to rejected, which store the target status and the time of the update;
  everything else, in particular leaving approved or rejected, is refused.
\<close>

definition transitionQuote :: "int \<Rightarrow> quote_doc \<Rightarrow> string \<Rightarrow> lifecycle_error + quote_doc" where
  "transitionQuote now q targetStatus =
     (if targetStatus = quote_status q then Inr q
      else if targetStatus \<notin> set [''pending'', ''approved'', ''rejected''] then Inl InvalidTransition
      else if quote_status q = ''pending'' \<and> targetStatus \<in> set [''approved'', ''rejected'']
        then Inr (q\<lparr>quote_status := targetStatus, quote_updatedAt := now\<rparr>)
      else Inl InvalidTransition)"

definition terminal :: "string \<Rightarrow> bool" where
  "terminal s \<longleftrightarrow> s = ''approved'' \<or> s = ''rejected''"

section \<open>The message schema\<close>

text \<open>
  The value of a schema path in the object handed to the model's constructor and in a
  document: not given (\<open>undefined\<close>), an explicit \<open>null\<close>, or a value of the
  path's type.
\<close>

datatype 'a path_value = Unset | Null | Given 'a

text \<open>The paths of \<open>messageSchema\<close>.\<close>

record message_fields =
  name :: "string path_value"
  email :: "string path_value"
  phone :: "string path_value"
  subject :: "string path_value"
  message :: "string path_value"
  isRead :: "bool path_value"
  source :: "string path_value"

text \<open>\<open>timestamps: true\<close> adds the two dates to a stored document.\<close>

record message_doc = message_fields +
  msg_createdAt :: int
  msg_updatedAt :: int

datatype validation_error = PathRequired string | EnumMismatch string string

text \<open>
  The \<open>required\<close> validator of a string path fails on a path that is not given, on
  \<open>null\<close> and on the empty string. The \<open>enum\<close> validator passes a path that is not
  given, passes \<open>null\<close> (the validator of the current library accepts every value
  \<open>v\<close> with \<open>v == null\<close>), and passes every listed value.
\<close>

definition required_string :: "string \<Rightarrow> string path_value \<Rightarrow> validation_error list" where
  "required_string path v =
     (case v of
        Unset \<Rightarrow> [PathRequired path]
      | Null \<Rightarrow> [PathRequired path]
      | Given s \<Rightarrow> if s = [] then [PathRequired path] else [])"

definition enum_string :: "string \<Rightarrow> string list \<Rightarrow> string path_value \<Rightarrow> validation_error list" where
  "enum_string path allowed v =
     (case v of
        Unset \<Rightarrow> []
      | Null \<Rightarrow> []
      | Given s \<Rightarrow> if s \<in> set allowed then [] else [EnumMismatch path s])"

definition source_enum :: "string list" where
  "source_enum = [''contact'', ''quote'', ''other'']"

text \<open>A \<open>default\<close> fills a path only when it is not given; an explicit \<open>null\<close> stays.\<close>

definition with_default :: "'a \<Rightarrow> 'a path_value \<Rightarrow> 'a path_value" where
  "with_default d v = (case v of Unset \<Rightarrow> Given d | Null \<Rightarrow> Null | Given x \<Rightarrow> Given x)"

definition apply_defaults :: "message_fields \<Rightarrow> message_fields" where
  "apply_defaults m =
     m\<lparr>isRead := with_default False (isRead m),
       source := with_default ''contact'' (source m)\<rparr>"

definition validate_message :: "message_fields \<Rightarrow> validation_error list" where
  "validate_message m =
     required_string ''name'' (name m) @
     required_string ''email'' (email m) @
     required_string ''subject'' (subject m) @
     required_string ''message'' (message m) @
     enum_string ''source'' source_enum (source m)"

text \<open>
  Creating a message at time \<open>now\<close>: defaults first, then the validators; a document is
  stored only when no validator fails.
\<close>

definition create_message :: "int \<Rightarrow> message_fields \<Rightarrow> validation_error list + message_doc" where
  "create_message now input =
     (let m = apply_defaults input; errs = validate_message m
      in if errs = [] then Inr (message_fields.extend m \<lparr>msg_createdAt = now, msg_updatedAt = now\<rparr>)
         else Inl errs)"

section \<open>The package service (admin packages page)\<close>

text \<open>
  JavaScript values as they come out of a parsed JSON body. An object is the list of its
  own properties in insertion order. Numbers matter below only through their truthiness,
  so integers stand for them.
\<close>

datatype jsval =
    JUndefined
  | JNull
  | JBool bool
  | JNum int
  | JStr string
  | JArr "jsval list"
  | JObj "(string \<times> jsval) list"

fun truthy :: "jsval \<Rightarrow> bool" where
  "truthy JUndefined = False"
| "truthy JNull = False"
| "truthy (JBool b) = b"
| "truthy (JNum n) = (n \<noteq> 0)"
| "truthy (JStr s) = (s \<noteq> [])"
| "truthy (JArr xs) = True"
| "truthy (JObj kvs) = True"

fun typeof :: "jsval \<Rightarrow> string" where
  "typeof JUndefined = ''undefined''"
| "typeof JNull = ''object''"
| "typeof (JBool b) = ''boolean''"
| "typeof (JNum n) = ''number''"
| "typeof (JStr s) = ''string''"
| "typeof (JArr xs) = ''object''"
| "typeof (JObj kvs) = ''object''"

fun isArray :: "jsval \<Rightarrow> bool" where
  "isArray (JArr xs) = True"
| "isArray v = False"

fun elems :: "jsval \<Rightarrow> jsval list" where
  "elems (JArr xs) = xs"
| "elems v = []"

text \<open>
  Reading a property that is not a built-in one (\<open>data\<close>, \<open>imageUrl\<close>, \<open>images\<close>,
  \<open>isPrimary\<close>, \<open>url\<close>): an object yields the property's value or \<open>undefined\<close>, an
  array or a primitive yields \<open>undefined\<close>. On \<open>null\<close> and \<open>undefined\<close> JavaScript
  throws; the code below reads a property only behind a truthiness guard or an optional
  chain, so that case is never evaluated.
\<close>

fun get_prop :: "jsval \<Rightarrow> string \<Rightarrow> jsval" where
  "get_prop (JObj kvs) k = (case map_of kvs k of Some v \<Rightarrow> v | None \<Rightarrow> JUndefined)"
| "get_prop v k = JUndefined"

text \<open>\<open>a && b\<close>, \<open>a || b\<close>, \<open>a ?? b\<close> and \<open>a?.k\<close>.\<close>

definition js_and :: "jsval \<Rightarrow> jsval \<Rightarrow> jsval" where
  "js_and a b = (if truthy a then b else a)"

definition js_or :: "jsval \<Rightarrow> jsval \<Rightarrow> jsval" where
  "js_or a b = (if truthy a then a else b)"

definition nullish :: "jsval \<Rightarrow> jsval \<Rightarrow> jsval" where
  "nullish a b = (if a = JNull \<or> a = JUndefined then b else a)"

definition opt_prop :: "jsval \<Rightarrow> string \<Rightarrow> jsval" where
  "opt_prop v k = (if v = JNull \<or> v = JUndefined then JUndefined else get_prop v k)"

text \<open>\<open>xs.find(f)\<close> and \<open>xs[i]\<close>: both yield \<open>undefined\<close> when there is no such element.\<close>

definition array_find :: "(jsval \<Rightarrow> bool) \<Rightarrow> jsval list \<Rightarrow> jsval" where
  "array_find f xs = (case find f xs of Some x \<Rightarrow> x | None \<Rightarrow> JUndefined)"

definition array_at :: "jsval list \<Rightarrow> nat \<Rightarrow> jsval" where
  "array_at xs i = (if i < length xs then xs ! i else JUndefined)"

text \<open>
  \<open>{ ...pkg, k: v }\<close> for an object: the own properties in their order, with \<open>k\<close>
  overwritten in place when present and appended otherwise. The code spreads only values
  that carry an \<open>images\<close> array, hence objects.
\<close>

fun spread_with :: "jsval \<Rightarrow> string \<Rightarrow> jsval \<Rightarrow> jsval" where
  "spread_with (JObj kvs) k v = JObj (AList.update k v kvs)"
| "spread_with pkg k v = pkg"

definition normalizeFromBackend :: "jsval \<Rightarrow> jsval" where
  "normalizeFromBackend pkg =
     (if \<not> truthy pkg \<or> typeof pkg \<noteq> ''object'' then pkg
      else if \<not> truthy (get_prop pkg ''imageUrl'') \<and> isArray (get_prop pkg ''images'')
              \<and> length (elems (get_prop pkg ''images'')) > 0
        then (let images = elems (get_prop pkg ''images'');
                  primary = js_or (array_find (\<lambda>i. truthy (js_and i (get_prop i ''isPrimary''))) images)
                                  (array_at images 0)
              in if truthy (js_and primary (get_prop primary ''url''))
                 then spread_with pkg ''imageUrl'' (get_prop primary ''url'')
                 else pkg)
      else pkg)"

datatype http_error = RequestFailed string

record http_response =
  data :: jsval
  http_status :: nat

text \<open>\<open>response.data?.data ?? response.data\<close>\<close>

definition payload :: "http_response \<Rightarrow> jsval" where
  "payload response = nullish (opt_prop (data response) ''data'') (data response)"

definition try_catch :: "('e, 'a) outcome \<Rightarrow> ('e \<Rightarrow> ('e, 'a) outcome) \<Rightarrow> ('e, 'a) outcome" where
  "try_catch body handler = (case body of Thrown e \<Rightarrow> handler e | Returned v \<Rightarrow> Returned v)"

text \<open>
  \<open>fetchAllPackages\<close>, given how \<open>axios.get(API_URL)\<close> settles: it rejects with an
  error or resolves with a response.
\<close>

definition fetchAllPackages :: "http_error + http_response \<Rightarrow> (http_error, jsval) outcome" where
  "fetchAllPackages axios_get =
     try_catch
       (case axios_get of
          Inl e \<Rightarrow> Thrown e
        | Inr response \<Rightarrow>
            (let p = payload response;
                 list = (if isArray p then elems p else [])
             in Returned (JArr (map normalizeFromBackend list))))
       (\<lambda>error. Returned (JArr []))"

text \<open>The claim's wording for \<open>normalizeFromBackend\<close>.\<close>

definition lacks_imageUrl :: "jsval \<Rightarrow> bool" where
  "lacks_imageUrl pkg \<longleftrightarrow> \<not> truthy (get_prop pkg ''imageUrl'')"

definition marked_primary :: "jsval \<Rightarrow> bool" where
  "marked_primary i \<longleftrightarrow> truthy (get_prop i ''isPrimary'')"

definition chosen_image :: "jsval list \<Rightarrow> jsval" where
  "chosen_image imgs = (case find marked_primary imgs of Some i \<Rightarrow> i | None \<Rightarrow> hd imgs)"

definition has_url :: "jsval \<Rightarrow> bool" where
  "has_url i \<longleftrightarrow> truthy (get_prop i ''url'')"

definition is_object :: "jsval \<Rightarrow> bool" where
  "is_object pkg = (case pkg of JObj kvs \<Rightarrow> True | _ \<Rightarrow> False)"

definition fields :: "jsval \<Rightarrow> (string \<times> jsval) list" where
  "fields pkg = (case pkg of JObj kvs \<Rightarrow> kvs | _ \<Rightarrow> [])"

definition images_of :: "jsval \<Rightarrow> jsval list" where
  "images_of pkg = (case get_prop pkg ''images'' of JArr imgs \<Rightarrow> imgs | _ \<Rightarrow> [])"

definition needs_imageUrl :: "jsval \<Rightarrow> bool" where
  "needs_imageUrl pkg \<longleftrightarrow>
     is_object pkg \<and> lacks_imageUrl pkg \<and> images_of pkg \<noteq> []
     \<and> has_url (chosen_image (images_of pkg))"

definition chosen_url :: "jsval \<Rightarrow> jsval" where
  "chosen_url pkg = get_prop (chosen_image (images_of pkg)) ''url''"

section \<open>Example data\<close>

text \<open>
  A store observed at \<open>example_now\<close> (31 days and one second after the epoch): one
  quotation created 31 days before, one created 29 days before, one confirmed customer
  as old as the first, and a quote.
\<close>

definition example_now :: int where
  "example_now = 2678401000"

definition old_quotation :: customer where
  "old_quotation = \<lparr>cust_id = 1, status = ''quotation'', createdAt = 1000\<rparr>"

definition recent_quotation :: customer where
  "recent_quotation = \<lparr>cust_id = 2, status = ''quotation'', createdAt = 172801000\<rparr>"

definition confirmed_customer :: customer where
  "confirmed_customer = \<lparr>cust_id = 3, status = ''confirmed'', createdAt = 1000\<rparr>"

definition example_quote :: quote_doc where
  "example_quote = \<lparr>quote_id = 7, quote_customer = 1, quote_status = ''pending'', quote_updatedAt = 1000\<rparr>"

definition example_store :: store where
  "example_store =
     \<lparr>customers = [old_quotation, recent_quotation, confirmed_customer],
      quotes = [example_quote], fault = None\<rparr>"

definition example_input :: message_fields where
  "example_input =
     \<lparr>name = Given ''Thandi'', email = Given ''thandi@example.org'', phone = Unset,
      subject = Given ''Tent hire'', message = Given ''Please call me back'',
      isRead = Unset, source = Unset\<rparr>"

definition example_stored :: message_doc where
  "example_stored =
     \<lparr>name = Given ''Thandi'', email = Given ''thandi@example.org'', phone = Unset,
      subject = Given ''Tent hire'', message = Given ''Please call me back'',
      isRead = Given False, source = Given ''contact'', msg_createdAt = 5, msg_updatedAt = 5\<rparr>"

text \<open>The same submission with \<open>source: null\<close>, and the document it is stored as.\<close>

definition null_source_input :: message_fields where
  "null_source_input = example_input\<lparr>source := Null\<rparr>"

definition null_source_stored :: message_doc where
  "null_source_stored = example_stored\<lparr>source := Null\<rparr>"

definition example_package :: jsval where
  "example_package =
     JObj [(''name'', JStr ''Gold''), (''imageUrl'', JStr []),
           (''images'', JArr [JObj [(''url'', JStr ''a.png'')], JNull,
                              JObj [(''url'', JStr ''b.png''), (''isPrimary'', JBool True)]])]"

section \<open>Properties of the cleanup sweep\<close>

lemma matches_eligible:
  "matches \<lparr>f_status = ''quotation'', f_createdAt_lt = now - THIRTY_DAYS_MS\<rparr> = eligible now"
  by (rule ext) (simp add: matches_def eligible_def THIRTY_DAYS_MS_def ONE_DAY_MS_def)

lemma cleanup_ok:
  "fault db = None \<Longrightarrow>
   cleanupOldQuotations now db =
     (Returned (), db\<lparr>customers := filter (\<lambda>c. \<not> eligible now c) (customers db)\<rparr>,
      StoreDeleteMany \<lparr>f_status = ''quotation'', f_createdAt_lt = now - THIRTY_DAYS_MS\<rparr> #
        (if filter (eligible now) (customers db) \<noteq> []
         then [ConsoleLogCleanedUp (length (filter (eligible now) (customers db)))] else []))"
  by (simp add: cleanupOldQuotations_def deleteMany_def matches_eligible Let_def)

lemma cleanup_fail:
  "fault db = Some e \<Longrightarrow>
   cleanupOldQuotations now db =
     (Returned (), db,
      [StoreDeleteMany \<lparr>f_status = ''quotation'', f_createdAt_lt = now - THIRTY_DAYS_MS\<rparr>,
       ConsoleErrorCleanupFailed e])"
  by (simp add: cleanupOldQuotations_def deleteMany_def Let_def)

lemma sweep_outcome_returned: "sweep_outcome now db = Returned ()"
  by (cases "fault db") (simp_all add: sweep_outcome_def cleanup_ok cleanup_fail)

lemma sweep_store_cases:
  "sweep_store now db =
     (if fault db = None then db\<lparr>customers := filter (\<lambda>c. \<not> eligible now c) (customers db)\<rparr>
      else db)"
  by (cases "fault db") (simp_all add: sweep_store_def cleanup_ok cleanup_fail)

lemma filter_none_id: "(\<forall>c\<in>set xs. \<not> P c) \<Longrightarrow> filter (\<lambda>c. \<not> P c) xs = xs"
  by (induction xs) simp_all

lemmas example_defs =
  example_now_def old_quotation_def recent_quotation_def confirmed_customer_def
  example_quote_def example_store_def

text \<open>
  C1. One invocation of the sweep at time \<open>now\<close>, the store answering its bulk
  delete (a store that fails is the subject of C6), removes a customer of the collection
  if and only if its status is \<open>quotation\<close> and its \<open>createdAt\<close> is strictly before
  \<open>now\<close> minus thirty days. In particular a quotation created 31 days before \<open>now\<close>
  is removed and one created 29 days before \<open>now\<close> stays.
\<close>

theorem cleanup_deletes_iff_old_quotation:
  assumes "fault db = None" and "c \<in> set (customers db)"
  shows "(c \<notin> set (customers (sweep_store now db))
            \<longleftrightarrow> status c = ''quotation'' \<and> createdAt c < now - THIRTY_DAYS_MS)
       \<and> (status c = ''quotation'' \<and> createdAt c = now - 31 * ONE_DAY_MS
            \<longrightarrow> c \<notin> set (customers (sweep_store now db)))
       \<and> (status c = ''quotation'' \<and> createdAt c = now - 29 * ONE_DAY_MS
            \<longrightarrow> c \<in> set (customers (sweep_store now db)))"
  using assms
  by (simp add: sweep_store_cases eligible_def THIRTY_DAYS_MS_def ONE_DAY_MS_def)

theorem cleanup_deletes_iff_old_quotation_witness:
  "fault example_store = None
   \<and> old_quotation \<in> set (customers example_store)
   \<and> recent_quotation \<in> set (customers example_store)
   \<and> createdAt old_quotation = example_now - 31 * ONE_DAY_MS
   \<and> createdAt recent_quotation = example_now - 29 * ONE_DAY_MS
   \<and> old_quotation \<notin> set (customers (sweep_store example_now example_store))
   \<and> recent_quotation \<in> set (customers (sweep_store example_now example_store))"
  using cleanup_deletes_iff_old_quotation [of example_store old_quotation example_now]
        cleanup_deletes_iff_old_quotation [of example_store recent_quotation example_now]
  by (simp add: example_defs ONE_DAY_MS_def THIRTY_DAYS_MS_def)

text \<open>
  C5. One invocation of the sweep removes exactly the eligible customers when the store
  answers, and in every case leaves the customers that are not eligible as they were (the
  same documents in the same order), leaves the quote collection as it was, and returns
  without throwing. When no customer is eligible the store is unchanged, and, the store
  answering, the only effect is the one bulk delete: nothing is written to the console.
\<close>

theorem cleanup_frame:
  "(fault db = None \<longrightarrow>
      customers (sweep_store now db) = filter (\<lambda>c. \<not> eligible now c) (customers db))
   \<and> filter (\<lambda>c. \<not> eligible now c) (customers (sweep_store now db))
       = filter (\<lambda>c. \<not> eligible now c) (customers db)
   \<and> quotes (sweep_store now db) = quotes db
   \<and> sweep_outcome now db = Returned ()
   \<and> ((\<forall>c\<in>set (customers db). \<not> eligible now c) \<longrightarrow>
        sweep_store now db = db
        \<and> (fault db = None \<longrightarrow>
             sweep_effects now db =
               [StoreDeleteMany \<lparr>f_status = ''quotation'', f_createdAt_lt = now - THIRTY_DAYS_MS\<rparr>]))"
  by (cases "fault db")
     (simp_all add: sweep_store_cases sweep_outcome_returned sweep_effects_def cleanup_ok
        filter_none_id filter_empty_conv)

theorem cleanup_frame_witness:
  "customers (sweep_store example_now example_store) = [recent_quotation, confirmed_customer]
   \<and> quotes (sweep_store example_now example_store) = [example_quote]
   \<and> filter (eligible 1000) (customers example_store) = []
   \<and> sweep_store 1000 example_store = example_store
   \<and> sweep_outcome 1000 example_store = Returned ()
   \<and> sweep_effects 1000 example_store =
        [StoreDeleteMany \<lparr>f_status = ''quotation'', f_createdAt_lt = 1000 - THIRTY_DAYS_MS\<rparr>]"
  using cleanup_frame [of example_store example_now] cleanup_frame [of example_store 1000]
  by (simp add: example_defs eligible_def)

text \<open>
  C6. When the store fails with an error \<open>e\<close>, one invocation of the sweep returns
  normally, leaves the store as it was, and its effects are exactly one bulk delete
  request followed by one console error line carrying \<open>e\<close>: the request is not issued
  a second time. Run from a timer, the failed invocation leaves the armed timers as they
  are, so the next attempt is the next scheduled run.
\<close>

theorem cleanup_store_failure:
  assumes "fault db = Some e"
  shows "cleanupOldQuotations now db =
           (Returned (), db,
            [StoreDeleteMany \<lparr>f_status = ''quotation'', f_createdAt_lt = now - THIRTY_DAYS_MS\<rparr>,
             ConsoleErrorCleanupFailed e])
       \<and> (database p = db \<longrightarrow>
            database (invoke_cleanup p) = db \<and> timers (invoke_cleanup p) = timers p)"
  using assms by (simp add: cleanup_fail invoke_cleanup_def)

theorem cleanup_store_failure_witness:
  "fault (example_store\<lparr>fault := Some (StoreUnavailable ''down'')\<rparr>) = Some (StoreUnavailable ''down'')
   \<and> cleanupOldQuotations example_now (example_store\<lparr>fault := Some (StoreUnavailable ''down'')\<rparr>) =
       (Returned (), example_store\<lparr>fault := Some (StoreUnavailable ''down'')\<rparr>,
        [StoreDeleteMany \<lparr>f_status = ''quotation'', f_createdAt_lt = 86401000\<rparr>,
         ConsoleErrorCleanupFailed (StoreUnavailable ''down'')])
   \<and> database (invoke_cleanup (fresh_process example_now
          (example_store\<lparr>fault := Some (StoreUnavailable ''down'')\<rparr>)))
       = example_store\<lparr>fault := Some (StoreUnavailable ''down'')\<rparr>
   \<and> timers (invoke_cleanup (fresh_process example_now
          (example_store\<lparr>fault := Some (StoreUnavailable ''down'')\<rparr>))) = []"
  using cleanup_store_failure
          [of "example_store\<lparr>fault := Some (StoreUnavailable ''down'')\<rparr>" "StoreUnavailable ''down''"
              example_now
              "fresh_process example_now (example_store\<lparr>fault := Some (StoreUnavailable ''down'')\<rparr>)"]
  by (simp add: example_now_def THIRTY_DAYS_MS_def ONE_DAY_MS_def fresh_process_def)

section \<open>Properties of the sweep scheduler\<close>

lemma invoke_cleanup_proj:
  "clock (invoke_cleanup p) = clock p"
  "timers (invoke_cleanup p) = timers p"
  "fired (invoke_cleanup p) = fired p @ [clock p]"
  by (simp_all add: invoke_cleanup_def split: prod.splits)

lemma tick_waiting:
  assumes "timers p = [t]" and "clock p + 1 < due t"
  shows "clock (tick p) = clock p + 1" and "timers (tick p) = [t]" and "fired (tick p) = fired p"
  using assms by (simp_all add: tick_def Let_def)

lemma tick_start:
  assumes "timers p = [\<lparr>due = clock p + 1, every = None, callback = StartCleanupJob\<rparr>]"
  shows "clock (tick p) = clock p + 1"
    and "timers (tick p) = [\<lparr>due = clock p + 1 + ONE_DAY_MS, every = Some ONE_DAY_MS, callback = CleanupJob\<rparr>]"
    and "fired (tick p) = fired p @ [clock p + 1]"
  using assms
  by (simp_all add: tick_def Let_def rearm_def setInterval_def invoke_cleanup_proj timer_delay_def ONE_DAY_MS_def)

lemma tick_interval:
  assumes "timers p = [\<lparr>due = clock p + 1, every = Some d, callback = CleanupJob\<rparr>]"
  shows "clock (tick p) = clock p + 1"
    and "timers (tick p) = [\<lparr>due = clock p + 1 + d, every = Some d, callback = CleanupJob\<rparr>]"
    and "fired (tick p) = fired p @ [clock p + 1]"
  using assms
  by (simp_all add: tick_def Let_def rearm_def invoke_cleanup_proj)

lemma sweeps_within_Suc:
  "sweeps_within (Suc n) =
     (if Suc n < 10000 then 0
      else if (Suc n - 10000) mod 86400000 = 0 then sweeps_within n + 1 else sweeps_within n)"
proof (cases "Suc n \<le> 10000")
  case True
  then show ?thesis by (auto simp: sweeps_within_def)
next
  case False
  then obtain m where n: "n = 10000 + m" by (metis add_Suc_right le_add_diff_inverse not_less_eq_eq nat_le_linear)
  show ?thesis
    by (simp add: sweeps_within_def n div_Suc)
qed

lemma sweeps_within_bounds:
  assumes "10000 \<le> n"
  shows "n < 10000 + sweeps_within n * 86400000"
    and "(Suc n - 10000) mod 86400000 = 0 \<longleftrightarrow> Suc n = 10000 + sweeps_within n * 86400000"
proof -
  obtain m where n: "n = 10000 + m" using assms by (metis le_add_diff_inverse)
  have a: "m < (m div 86400000 + 1) * 86400000"
    using dividend_less_div_times [of 86400000 m] by simp
  show "n < 10000 + sweeps_within n * 86400000"
    using a by (simp add: sweeps_within_def n)
  have b: "Suc m mod 86400000 = 0 \<longleftrightarrow> Suc m = (m div 86400000 + 1) * 86400000"
  proof
    assume z: "Suc m mod 86400000 = 0"
    have "Suc m = Suc m div 86400000 * 86400000" using z div_mult_mod_eq [of "Suc m" 86400000] by simp
    also have "Suc m div 86400000 = m div 86400000 + 1" using z by (simp add: div_Suc)
    finally show "Suc m = (m div 86400000 + 1) * 86400000" .
  next
    assume "Suc m = (m div 86400000 + 1) * 86400000"
    then show "Suc m mod 86400000 = 0" by (metis mod_mult_self2_is_0)
  qed
  show "(Suc n - 10000) mod 86400000 = 0 \<longleftrightarrow> Suc n = 10000 + sweeps_within n * 86400000"
    using b by (simp add: sweeps_within_def n)
qed

lemma sched_step:
  assumes c: "clock p = t0 + int n" and f: "fired p = fire_times t0 n" and t: "timers p = [armed t0 n]"
  shows "clock (tick p) = t0 + int (Suc n) \<and> fired (tick p) = fire_times t0 (Suc n)
         \<and> timers (tick p) = [armed t0 (Suc n)]"
proof -
  consider (before) "Suc n < 10000" | (start) "Suc n = 10000"
    | (idle) "10000 \<le> n" "Suc n \<noteq> 10000 + sweeps_within n * 86400000"
    | (fire) "10000 \<le> n" "Suc n = 10000 + sweeps_within n * 86400000"
    by linarith
  then show ?thesis
  proof cases
    case before
    then have a: "armed t0 n = \<lparr>due = t0 + STARTUP_DELAY_MS, every = None, callback = StartCleanupJob\<rparr>"
      and a': "armed t0 (Suc n) = armed t0 n" by (simp_all add: armed_def)
    have "clock p + 1 < due (armed t0 n)" using before c by (simp add: a STARTUP_DELAY_MS_def)
    from tick_waiting [OF t this] show ?thesis
      using before c f by (simp add: a' fire_times_def sweeps_within_def)
  next
    case start
    then have a: "armed t0 n = \<lparr>due = clock p + 1, every = None, callback = StartCleanupJob\<rparr>"
      using c by (simp add: armed_def STARTUP_DELAY_MS_def)
    have s0: "sweeps_within n = 0" and s1: "sweeps_within (Suc n) = 1"
      using start by (simp_all add: sweeps_within_def)
    have f0: "fired p = []" using f by (simp add: fire_times_def s0)
    have cn: "clock p + 1 = t0 + 10000" using start c by simp
    have ge: "\<not> Suc n < 10000" using start by simp
    have f1: "fire_times t0 (Suc n) = [clock p + 1]"
      by (simp add: fire_times_def s1 STARTUP_DELAY_MS_def cn)
    have a1: "armed t0 (Suc n)
                = \<lparr>due = clock p + 1 + ONE_DAY_MS, every = Some ONE_DAY_MS, callback = CleanupJob\<rparr>"
      using ge by (simp add: armed_def s1 STARTUP_DELAY_MS_def cn)
    from tick_start [OF t [unfolded a]] show ?thesis
      using c by (simp add: f0 f1 a1)
  next
    case idle
    have lt: "n < 10000 + sweeps_within n * 86400000" using sweeps_within_bounds(1) [OF idle(1)] .
    have s: "sweeps_within (Suc n) = sweeps_within n"
      using idle sweeps_within_bounds(2) [OF idle(1)] by (simp add: sweeps_within_Suc)
    have a': "armed t0 (Suc n) = armed t0 n" using idle(1) by (simp add: armed_def s)
    have "int (Suc n) < int (10000 + sweeps_within n * 86400000)" using lt idle(2) by linarith
    then have "clock p + 1 < due (armed t0 n)"
      using idle(1) c by (simp add: armed_def STARTUP_DELAY_MS_def ONE_DAY_MS_def)
    from tick_waiting [OF t this] show ?thesis
      using c f by (simp add: a' fire_times_def s)
  next
    case fire
    have s: "sweeps_within (Suc n) = sweeps_within n + 1"
      using fire sweeps_within_bounds(2) [OF fire(1)] by (simp add: sweeps_within_Suc)
    have "int (Suc n) = int (10000 + sweeps_within n * 86400000)" using fire(2) by simp
    then have d: "t0 + STARTUP_DELAY_MS + int (sweeps_within n) * ONE_DAY_MS = clock p + 1"
      using c by (simp add: STARTUP_DELAY_MS_def ONE_DAY_MS_def)
    have a: "armed t0 n = \<lparr>due = clock p + 1, every = Some ONE_DAY_MS, callback = CleanupJob\<rparr>"
      using fire(1) d by (simp add: armed_def)
    from tick_interval [OF t [unfolded a]] show ?thesis
      using fire(1) c d by (simp add: f fire_times_def s armed_def algebra_simps)
  qed
qed

lemma sched_inv:
  assumes "clock p = t0" and "fired p = []"
    and "timers p = [\<lparr>due = t0 + STARTUP_DELAY_MS, every = None, callback = StartCleanupJob\<rparr>]"
  shows "clock (run_for n p) = t0 + int n \<and> fired (run_for n p) = fire_times t0 n
         \<and> timers (run_for n p) = [armed t0 n]"
proof (induction n)
  case 0
  show ?case using assms by (simp add: run_for_def fire_times_def armed_def sweeps_within_def)
next
  case (Suc n)
  then show ?case using sched_step [of "run_for n p" t0 n] by (simp add: run_for_def)
qed

text \<open>
  C7. Time advances in steps of one millisecond and a timer's function runs in the step
  in which the timer falls due. After \<open>initializeApp\<close> has connected at time
  \<open>t0\<close>, the sweep has been invoked, \<open>n\<close> milliseconds later, exactly at the times
  \<open>t0 + STARTUP_DELAY_MS + k * ONE_DAY_MS\<close> that lie within those \<open>n\<close>
  milliseconds, once each and in this order: once when the startup delay has passed, then
  once per day; no time occurs twice, and before the startup delay has passed the sweep
  has not been invoked at all.
\<close>

theorem scheduler_fire_times:
  assumes "initializeApp (Inr ()) (fresh_process t0 d) = Inr p"
  shows "fired (run_for n p)
           = map (\<lambda>k. t0 + STARTUP_DELAY_MS + int k * ONE_DAY_MS) [0..<sweeps_within n]
       \<and> distinct (fired (run_for n p))
       \<and> (int n < STARTUP_DELAY_MS \<longrightarrow> fired (run_for n p) = [])"
proof -
  have inj: "inj_on (\<lambda>k. t0 + STARTUP_DELAY_MS + int k * ONE_DAY_MS) A" for A
    by (simp add: inj_on_def ONE_DAY_MS_def)
  have p: "p = setTimeout StartCleanupJob STARTUP_DELAY_MS (fresh_process t0 d)"
    using assms by (simp add: initializeApp_def)
  have "clock p = t0" "fired p = []"
    "timers p = [\<lparr>due = t0 + STARTUP_DELAY_MS, every = None, callback = StartCleanupJob\<rparr>]"
    by (simp_all add: p setTimeout_def fresh_process_def timer_delay_def STARTUP_DELAY_MS_def)
  from sched_inv [OF this, of n]
  have f: "fired (run_for n p)
             = map (\<lambda>k. t0 + STARTUP_DELAY_MS + int k * ONE_DAY_MS) [0..<sweeps_within n]"
    by (simp add: fire_times_def)
  have "distinct (fired (run_for n p))"
    unfolding f by (simp add: distinct_map inj)
  moreover have "int n < STARTUP_DELAY_MS \<longrightarrow> fired (run_for n p) = []"
    unfolding f by (simp add: sweeps_within_def STARTUP_DELAY_MS_def)
  ultimately show ?thesis using f by simp
qed

theorem scheduler_fire_times_witness:
  "initializeApp (Inr ()) (fresh_process 500 example_store)
     = Inr (setTimeout StartCleanupJob STARTUP_DELAY_MS (fresh_process 500 example_store))
   \<and> fired (run_for 9999 (setTimeout StartCleanupJob STARTUP_DELAY_MS (fresh_process 500 example_store)))
       = []
   \<and> fired (run_for 10000 (setTimeout StartCleanupJob STARTUP_DELAY_MS (fresh_process 500 example_store)))
       = [10500]
   \<and> fired (run_for 86410000 (setTimeout StartCleanupJob STARTUP_DELAY_MS (fresh_process 500 example_store)))
       = [10500, 86410500]"
proof -
  have i: "initializeApp (Inr ()) (fresh_process 500 example_store)
             = Inr (setTimeout StartCleanupJob STARTUP_DELAY_MS (fresh_process 500 example_store))"
    by (simp add: initializeApp_def)
  have u: "[0..<2] = [0, Suc 0]" by (simp add: upt_rec)
  show ?thesis
    using scheduler_fire_times [OF i, of 9999] scheduler_fire_times [OF i, of 10000]
      scheduler_fire_times [OF i, of 86410000]
    by (simp add: i sweeps_within_def STARTUP_DELAY_MS_def ONE_DAY_MS_def u)
qed

section \<open>Properties of the quote status lifecycle\<close>

text \<open>
  C2. A quote whose status is approved or rejected refuses every transition to a
  different status with \<open>InvalidTransition\<close>; the refusal carries no record, so nothing
  is changed.
\<close>

theorem terminal_quote_rejects_transition:
  assumes "terminal (quote_status q)" and "targetStatus \<noteq> quote_status q"
  shows "transitionQuote now q targetStatus = Inl InvalidTransition"
  using assms by (auto simp: transitionQuote_def terminal_def)

theorem terminal_quote_rejects_transition_witness:
  "terminal (quote_status (example_quote\<lparr>quote_status := ''approved''\<rparr>))
   \<and> ''rejected'' \<noteq> quote_status (example_quote\<lparr>quote_status := ''approved''\<rparr>)
   \<and> transitionQuote 2000 (example_quote\<lparr>quote_status := ''approved''\<rparr>) ''rejected''
       = Inl InvalidTransition"
  using terminal_quote_rejects_transition
          [of "example_quote\<lparr>quote_status := ''approved''\<rparr>" "''rejected''" 2000]
  by (simp add: terminal_def)

text \<open>
  C3. Re-applying the status a quote already has, whatever that status is, succeeds and
  returns the record unchanged.
\<close>

theorem transition_same_status_noop:
  "transitionQuote now q (quote_status q) = Inr q"
  by (simp add: transitionQuote_def)

theorem transition_same_status_noop_witness:
  "transitionQuote 2000 (example_quote\<lparr>quote_status := ''rejected''\<rparr>) ''rejected''
     = Inr (example_quote\<lparr>quote_status := ''rejected''\<rparr>)"
  using transition_same_status_noop [of 2000 "example_quote\<lparr>quote_status := ''rejected''\<rparr>"]
  by simp

text \<open>
  C4. A pending quote moves to approved, and likewise to rejected: the transition
  succeeds and the resulting record has the target status and the time of the call as its
  updated-at timestamp, every other field as before.
\<close>

theorem pending_quote_transition:
  assumes "quote_status q = ''pending''"
    and "targetStatus = ''approved'' \<or> targetStatus = ''rejected''"
  shows "transitionQuote now q targetStatus
           = Inr (q\<lparr>quote_status := targetStatus, quote_updatedAt := now\<rparr>)"
  using assms by (auto simp: transitionQuote_def)

theorem pending_quote_transition_witness:
  "quote_status example_quote = ''pending''
   \<and> transitionQuote 2000 example_quote ''approved''
       = Inr \<lparr>quote_id = 7, quote_customer = 1, quote_status = ''approved'', quote_updatedAt = 2000\<rparr>"
  using pending_quote_transition [of example_quote "''approved''" 2000]
  by (simp add: example_quote_def)

section \<open>Properties of the message schema\<close>

lemma required_string_absent:
  "required_string path Unset \<noteq> []" "required_string path Null \<noteq> []"
  by (simp_all add: required_string_def)

lemma enum_string_ok:
  "enum_string path allowed v = [] \<Longrightarrow> v = Unset \<or> v = Null \<or> (\<exists>s. v = Given s \<and> s \<in> set allowed)"
  by (auto simp: enum_string_def split: path_value.splits if_splits)

lemma create_message_Inr:
  "create_message now input = Inr m \<longleftrightarrow>
     validate_message (apply_defaults input) = []
     \<and> m = message_fields.extend (apply_defaults input) \<lparr>msg_createdAt = now, msg_updatedAt = now\<rparr>"
  by (auto simp: create_message_def Let_def)

lemma apply_defaults_sel:
  "source (apply_defaults input) = with_default ''contact'' (source input)"
  "isRead (apply_defaults input) = with_default False (isRead input)"
  "name (apply_defaults input) = name input"
  "email (apply_defaults input) = email input"
  "subject (apply_defaults input) = subject input"
  "message (apply_defaults input) = message input"
  by (simp_all add: apply_defaults_def)

lemma with_default_cases:
  "with_default d v \<noteq> Unset"
  "with_default d v = Null \<longleftrightarrow> v = Null"
  "with_default d Unset = Given d"
  by (simp_all add: with_default_def split: path_value.splits)

lemma extend_sel:
  "source (message_fields.extend r e) = source r"
  "isRead (message_fields.extend r e) = isRead r"
  by (simp_all add: message_fields.defs)

lemmas message_defs =
  create_message_def apply_defaults_def with_default_def validate_message_def
  required_string_def enum_string_def source_enum_def message_fields.defs
  example_input_def example_stored_def null_source_input_def null_source_stored_def

text \<open>
  C8, as stated, does not hold: a submission that gives \<open>source: null\<close> is admitted,
  and the stored document has \<open>source\<close> null, which is none of contact, quote and
  other. The default is not applied to an explicit null, the path is not required, and
  the enum validator passes null.
\<close>

theorem message_schema_null_source_counterexample:
  "create_message 5 null_source_input = Inr null_source_stored
   \<and> source null_source_stored = Null
   \<and> source null_source_stored \<notin> {Given ''contact'', Given ''quote'', Given ''other''}"
  by (simp add: message_defs)

text \<open>
  C8, amended. Every message the schema admits has its \<open>source\<close> among contact, quote
  and other, or null; it is null exactly when the submission gave an explicit null. A
  message created with \<open>isRead\<close> not given has \<open>isRead = false\<close>, one created with
  \<open>source\<close> not given has \<open>source = contact\<close>. Creation fails when \<open>name\<close>,
  \<open>email\<close>, \<open>subject\<close> or \<open>message\<close> is not given or is null.
\<close>

theorem message_schema_admission:
  "(create_message now input = Inr m \<longrightarrow>
      source m \<in> {Given ''contact'', Given ''quote'', Given ''other'', Null}
      \<and> (source m = Null \<longleftrightarrow> source input = Null))
   \<and> (create_message now input = Inr m \<and> isRead input = Unset \<longrightarrow> isRead m = Given False)
   \<and> (create_message now input = Inr m \<and> source input = Unset \<longrightarrow> source m = Given ''contact'')
   \<and> (name input = Unset \<or> email input = Unset \<or> subject input = Unset \<or> message input = Unset
        \<or> name input = Null \<or> email input = Null \<or> subject input = Null \<or> message input = Null
        \<longrightarrow> (\<exists>errs. create_message now input = Inl errs))"
proof (intro conjI impI)
  assume a: "create_message now input = Inr m"
  then have v: "enum_string ''source'' source_enum (source (apply_defaults input)) = []"
    by (simp add: create_message_Inr validate_message_def)
  have s: "source m = source (apply_defaults input)"
    using a by (simp add: create_message_Inr extend_sel)
  have "source (apply_defaults input) \<noteq> Unset"
    by (simp add: apply_defaults_sel with_default_cases)
  with enum_string_ok [OF v]
  have "source (apply_defaults input) = Null
        \<or> (\<exists>x. source (apply_defaults input) = Given x \<and> x \<in> set source_enum)"
    by auto
  then show "source m \<in> {Given ''contact'', Given ''quote'', Given ''other'', Null}"
    by (auto simp: s source_enum_def)
  show "source m = Null \<longleftrightarrow> source input = Null"
    by (simp add: s apply_defaults_sel with_default_cases)
next
  assume "create_message now input = Inr m \<and> isRead input = Unset"
  then show "isRead m = Given False"
    by (simp add: create_message_Inr extend_sel apply_defaults_sel with_default_cases)
next
  assume "create_message now input = Inr m \<and> source input = Unset"
  then show "source m = Given ''contact''"
    by (simp add: create_message_Inr extend_sel apply_defaults_sel with_default_cases)
next
  assume "name input = Unset \<or> email input = Unset \<or> subject input = Unset \<or> message input = Unset
        \<or> name input = Null \<or> email input = Null \<or> subject input = Null \<or> message input = Null"
  then have "validate_message (apply_defaults input) \<noteq> []"
    by (auto simp: validate_message_def apply_defaults_sel required_string_absent)
  then show "\<exists>errs. create_message now input = Inl errs"
    by (simp add: create_message_def Let_def)
qed

theorem message_schema_admission_witness:
  "create_message 5 example_input = Inr example_stored
   \<and> isRead example_input = Unset \<and> source example_input = Unset
   \<and> isRead example_stored = Given False \<and> source example_stored = Given ''contact''
   \<and> email (example_input\<lparr>email := Unset\<rparr>) = Unset
   \<and> create_message 5 (example_input\<lparr>email := Unset\<rparr>) = Inl [PathRequired ''email'']"
proof -
  have c: "create_message 5 example_input = Inr example_stored"
    by (simp add: message_defs)
  have d: "create_message 5 (example_input\<lparr>email := Unset\<rparr>) = Inl [PathRequired ''email'']"
    by (simp add: message_defs)
  show ?thesis
    using message_schema_admission [of 5 example_input example_stored]
      message_schema_admission [of 5 "example_input\<lparr>email := Unset\<rparr>"]
    by (simp add: c d) (simp add: example_input_def)
qed

section \<open>Properties of the package service\<close>

lemma truthy_guarded_prop: "truthy (js_and i (get_prop i k)) = truthy (get_prop i k)"
  by (cases i) (simp_all add: js_and_def)

lemma truthy_prop_object: "truthy (get_prop i k) \<Longrightarrow> truthy i"
  by (cases i) simp_all

lemma primary_is_chosen:
  assumes "imgs \<noteq> []"
  shows "js_or (array_find (\<lambda>i. truthy (get_prop i ''isPrimary'')) imgs) (array_at imgs 0)
           = chosen_image imgs"
proof (cases "find marked_primary imgs")
  case None
  then show ?thesis using assms
    by (simp add: marked_primary_def [abs_def] array_find_def js_or_def
          array_at_def chosen_image_def hd_conv_nth)
next
  case (Some x)
  then have "marked_primary x" by (auto simp: find_Some_iff)
  then have "truthy x" by (auto simp: marked_primary_def dest: truthy_prop_object)
  then show ?thesis using Some
    by (simp add: marked_primary_def [abs_def] array_find_def js_or_def
          chosen_image_def)
qed

lemma normalize_object:
  "normalizeFromBackend (JObj kvs) =
     (if needs_imageUrl (JObj kvs)
      then JObj (AList.update ''imageUrl'' (chosen_url (JObj kvs)) kvs) else JObj kvs)"
proof (cases "images_of (JObj kvs) = []")
  case True
  then show ?thesis
    by (auto simp: normalizeFromBackend_def needs_imageUrl_def images_of_def split: jsval.splits option.splits)
next
  case False
  then obtain imgs where i: "get_prop (JObj kvs) ''images'' = JArr imgs" and ne: "imgs \<noteq> []"
    by (auto simp: images_of_def split: jsval.splits)
  have io: "images_of (JObj kvs) = imgs" using i by (simp add: images_of_def)
  show ?thesis
    using ne
    by (simp add: normalizeFromBackend_def i io needs_imageUrl_def is_object_def lacks_imageUrl_def
          has_url_def chosen_url_def primary_is_chosen truthy_guarded_prop Let_def del: get_prop.simps)
qed

lemma normalize_non_object: "\<not> is_object pkg \<Longrightarrow> normalizeFromBackend pkg = pkg"
  by (cases pkg) (simp_all add: normalizeFromBackend_def is_object_def)

lemma get_prop_update:
  "get_prop (JObj (AList.update k v kvs)) k' = (if k' = k then v else get_prop (JObj kvs) k')"
  by (simp add: update_conv')

text \<open>
  C10. For a package object that lacks an \<open>imageUrl\<close> (the property is absent or
  falsy) and has a non-empty \<open>images\<close> array whose chosen image, the first one marked
  \<open>isPrimary\<close> and else the first one, has a (truthy) \<open>url\<close>,
  \<open>normalizeFromBackend\<close> returns the same object with \<open>imageUrl\<close> set to that url:
  the properties keep their order and every other property keeps its value. Every other
  input, objects and non-objects alike, is returned unchanged.
\<close>

theorem normalizeFromBackend_imageUrl:
  "(needs_imageUrl pkg \<longrightarrow>
      normalizeFromBackend pkg = JObj (AList.update ''imageUrl'' (chosen_url pkg) (fields pkg))
      \<and> get_prop (normalizeFromBackend pkg) ''imageUrl'' = chosen_url pkg
      \<and> (\<forall>k. k \<noteq> ''imageUrl'' \<longrightarrow> get_prop (normalizeFromBackend pkg) k = get_prop pkg k))
   \<and> (\<not> needs_imageUrl pkg \<longrightarrow> normalizeFromBackend pkg = pkg)"
proof (cases pkg)
  case (JObj kvs)
  show ?thesis
    unfolding JObj normalize_object
    by (simp add: get_prop_update fields_def del: get_prop.simps)
qed (simp_all add: normalize_non_object needs_imageUrl_def is_object_def)

theorem normalizeFromBackend_imageUrl_witness:
  "needs_imageUrl example_package
   \<and> normalizeFromBackend example_package =
       JObj [(''name'', JStr ''Gold''), (''imageUrl'', JStr ''b.png''),
             (''images'', JArr [JObj [(''url'', JStr ''a.png'')], JNull,
                                JObj [(''url'', JStr ''b.png''), (''isPrimary'', JBool True)]])]
   \<and> \<not> needs_imageUrl (JArr [example_package])
   \<and> normalizeFromBackend (JArr [example_package]) = JArr [example_package]"
proof -
  have n: "needs_imageUrl example_package"
    by (simp add: needs_imageUrl_def example_package_def is_object_def lacks_imageUrl_def
          images_of_def has_url_def chosen_image_def marked_primary_def)
  have u: "chosen_url example_package = JStr ''b.png''"
    by (simp add: chosen_url_def example_package_def images_of_def chosen_image_def
          marked_primary_def)
  have m: "\<not> needs_imageUrl (JArr [example_package])"
    by (simp add: needs_imageUrl_def is_object_def)
  show ?thesis
    using normalizeFromBackend_imageUrl [of example_package]
      normalizeFromBackend_imageUrl [of "JArr [example_package]"] n m
    by (simp add: u) (simp add: example_package_def fields_def)
qed

lemma fetch_cases:
  "fetchAllPackages (Inl e) = Returned (JArr [])"
  "fetchAllPackages (Inr response) =
     Returned (JArr (map normalizeFromBackend (if isArray (payload response) then elems (payload response) else [])))"
  by (simp_all add: fetchAllPackages_def try_catch_def Let_def)

text \<open>
  C9. \<open>fetchAllPackages\<close> returns an array however the request settles and never
  throws: the empty array when the request fails, the empty array when the payload (the
  response body, or its \<open>data\<close> property when that is neither null nor undefined) is
  not an array, and otherwise the payload's elements, each passed through
  \<open>normalizeFromBackend\<close>, in their order.
\<close>

theorem fetchAllPackages_returns_array:
  "(\<exists>xs. fetchAllPackages axios_get = Returned (JArr xs))
   \<and> (\<forall>e. axios_get = Inl e \<longrightarrow> fetchAllPackages axios_get = Returned (JArr []))
   \<and> (\<forall>response. axios_get = Inr response \<and> \<not> isArray (payload response)
         \<longrightarrow> fetchAllPackages axios_get = Returned (JArr []))
   \<and> (\<forall>response xs. axios_get = Inr response \<and> payload response = JArr xs
         \<longrightarrow> fetchAllPackages axios_get = Returned (JArr (map normalizeFromBackend xs)))"
  by (cases axios_get) (auto simp: fetch_cases)

theorem fetchAllPackages_returns_array_witness:
  "fetchAllPackages (Inl (RequestFailed ''Network Error'')) = Returned (JArr [])
   \<and> \<not> isArray (payload \<lparr>data = JObj [(''data'', JNull)], http_status = 200\<rparr>)
   \<and> fetchAllPackages (Inr \<lparr>data = JObj [(''data'', JNull)], http_status = 200\<rparr>) = Returned (JArr [])
   \<and> payload \<lparr>data = JObj [(''data'', JArr [JNum 3, JNull])], http_status = 200\<rparr> = JArr [JNum 3, JNull]
   \<and> fetchAllPackages (Inr \<lparr>data = JObj [(''data'', JArr [JNum 3, JNull])], http_status = 200\<rparr>)
       = Returned (JArr [JNum 3, JNull])"
proof -
  have p1: "\<not> isArray (payload \<lparr>data = JObj [(''data'', JNull)], http_status = 200\<rparr>)"
    by (simp add: payload_def nullish_def opt_prop_def)
  have p2: "payload \<lparr>data = JObj [(''data'', JArr [JNum 3, JNull])], http_status = 200\<rparr>
              = JArr [JNum 3, JNull]"
    by (simp add: payload_def nullish_def opt_prop_def)
  have n: "normalizeFromBackend (JNum 3) = JNum 3" "normalizeFromBackend JNull = JNull"
    by (simp_all add: normalizeFromBackend_def)
  show ?thesis
    using fetchAllPackages_returns_array [of "Inl (RequestFailed ''Network Error'')"]
      fetchAllPackages_returns_array [of "Inr \<lparr>data = JObj [(''data'', JNull)], http_status = 200\<rparr>"]
      fetchAllPackages_returns_array
        [of "Inr \<lparr>data = JObj [(''data'', JArr [JNum 3, JNull])], http_status = 200\<rparr>"]
      p1 p2
    by (simp add: n)
qed


end
